theory Spec2Isabelle
  imports Main
begin

section \<open>TestONNXQuick.py: a shallow embedding\<close>

text \<open>
  The script has two functions, \<open>check_onnx_model\<close> and \<open>main\<close>. Both only call the
  operating system (\<open>os.path\<close>), the \<open>onnx\<close> package and \<open>onnxruntime\<close>, and print.
  The embedding keeps the control flow of the source and makes the rest explicit:
  \<^item> what the outside world answers is a record \<open>world\<close> of functions, one field per
    call the script makes; the world does not change while the script runs;
  \<^item> a call that may raise returns \<open>py_exn + 'a\<close>, \<open>Inl\<close> being the exception;
  \<^item> standard output and the library calls are one list of events, in program order;
    a \<open>print\<close> is one event holding the values it formats (the fixed Korean text of a
    message is the event's constructor), and \<open>print\<close> itself does not fail;
  \<^item> Python's unbounded integers are \<open>int\<close>.
\<close>

subsection \<open>Exceptions\<close>

text \<open>
  Values of \<open>py_exn\<close> stand for instances of subclasses of Python's \<open>Exception\<close>, the
  class both handlers of \<open>check_onnx_model\<close> name. \<open>IndexError\<close> is what \<open>xs[0]\<close>
  raises on an empty list, \<open>TypeError\<close> what \<open>'batch' > 0\<close> and \<open>None > 0\<close> raise;
  \<open>LibraryError\<close> is any exception of a library, with its message.
\<close>

datatype py_exn = IndexError | TypeError | LibraryError string

subsection \<open>Data\<close>

text \<open>
  A graph input or output of the loaded model (\<open>ValueInfoProto\<close>): its name and the
  \<open>dim_value\<close> of every dimension of \<open>type.tensor_type.shape.dim\<close>. A dimension that
  has no fixed value has \<open>dim_value = 0\<close> (the protobuf default).
\<close>

record value_info =
  vi_name :: string
  vi_dim_values :: "int list"

record model_proto =
  producer_name :: string
  model_version :: int
  graph_input :: "value_info list"
  graph_output :: "value_info list"

text \<open>
  An element of \<open>NodeArg.shape\<close> of onnxruntime: an integer, the name of a symbolic
  dimension, or \<open>None\<close>.
\<close>

datatype dim = DimInt int | DimStr string | DimNone

record node_arg =
  na_name :: string
  na_shape :: "dim list"

record inference_session =
  get_inputs :: "node_arg list"
  get_outputs :: "node_arg list"

text \<open>An element of the list printed for a graph tensor: a number or \<open>'dynamic'\<close>.\<close>

datatype shape_elem = ShapeNum int | ShapeDynamic

text \<open>
  The answers of the outside world. \<open>os.path.exists\<close> and \<open>os.path.getsize\<close> both
  \<open>stat\<close> the path, so in a world that does not change \<open>getsize\<close> of a path that
  exists returns a size and does not raise; the script calls it only on such a path
  (line 21, after the test of line 16). The three library calls may raise.
\<close>

record world =
  path_exists :: "string \<Rightarrow> bool"
  path_getsize :: "string \<Rightarrow> nat"
  onnx_load :: "string \<Rightarrow> py_exn + model_proto"
  onnx_check_model :: "model_proto \<Rightarrow> py_exn + unit"
  ort_InferenceSession :: "string \<Rightarrow> py_exn + inference_session"

subsection \<open>Events\<close>

datatype event =
    PrintHeader string
  | PrintFileMissing
  | PrintFileSize nat
  | PrintValidating
  | CallLoad string
  | CallCheckModel
  | PrintStructureValid
  | PrintProducer string
  | PrintVersion int
  | PrintInputsTitle
  | PrintOutputsTitle
  | PrintTensor string "shape_elem list"
  | PrintSessionTest
  | CallInferenceSession string
  | PrintSessionCreated
  | PrintSessionInput string "dim list"
  | PrintSessionOutput string "dim list"
  | PrintCompatibility bool
  | PrintRuntimeError py_exn
  | PrintValidationFailed py_exn
  | PrintTitle
  | PrintNoModelsDir string
  | PrintResultTitle
  | PrintSummary int int
  | PrintWarning
  | PrintHowToFix
  | PrintAdvice nat

subsection \<open>Computations: a log and a result or an exception\<close>

type_synonym 'a comp = "event list \<times> (py_exn + 'a)"

definition ret :: "'a \<Rightarrow> 'a comp" where
  "ret x = ([], Inr x)"

definition emit :: "event \<Rightarrow> unit comp" where
  "emit ev = ([ev], Inr ())"

definition lift :: "py_exn + 'a \<Rightarrow> 'a comp" where
  "lift r = ([], r)"

text \<open>Sequencing: the second statement runs only if the first did not raise.\<close>

definition bind :: "'a comp \<Rightarrow> ('a \<Rightarrow> 'b comp) \<Rightarrow> 'b comp" where
  "bind m f =
     (case m of
        (l, Inl e) \<Rightarrow> (l, Inl e)
      | (l, Inr x) \<Rightarrow> (case f x of (l', r) \<Rightarrow> (l @ l', r)))"

text \<open>\<open>try: m except Exception as e: h e\<close>\<close>

definition try_except :: "'a comp \<Rightarrow> (py_exn \<Rightarrow> 'a comp) \<Rightarrow> 'a comp" where
  "try_except m h =
     (case m of
        (l, Inl e) \<Rightarrow> (case h e of (l', r) \<Rightarrow> (l @ l', r))
      | (l, Inr x) \<Rightarrow> (l, Inr x))"

definition log_of :: "'a comp \<Rightarrow> event list" where
  "log_of m = fst m"

definition result_of :: "'a comp \<Rightarrow> py_exn + 'a" where
  "result_of m = snd m"

subsection \<open>os.path\<close>

text \<open>
  \<open>posixpath.basename\<close> is \<open>p[p.rfind('/') + 1:]\<close>; \<open>posixpath.join a b\<close> is \<open>b\<close> when
  \<open>b\<close> starts with a slash, \<open>a + b\<close> when \<open>a\<close> is empty or ends with a slash, and
  \<open>a + '/' + b\<close> otherwise.
\<close>

definition basename :: "string \<Rightarrow> string" where
  "basename p = rev (takeWhile (\<lambda>c. c \<noteq> CHR ''/'') (rev p))"

definition path_join :: "string \<Rightarrow> string \<Rightarrow> string" where
  "path_join a b =
     (if b \<noteq> [] \<and> hd b = CHR ''/'' then b
      else if a = [] \<or> last a = CHR ''/'' then a @ b
      else a @ ''/'' @ b)"

subsection \<open>check_onnx_model\<close>

text \<open>Lines 38 and 43: \<open>[dim.dim_value if dim.dim_value > 0 else 'dynamic' for dim in ...]\<close>\<close>

definition render_dim :: "int \<Rightarrow> shape_elem" where
  "render_dim dim_value = (if dim_value > 0 then ShapeNum dim_value else ShapeDynamic)"

definition print_tensor :: "value_info \<Rightarrow> event" where
  "print_tensor t = PrintTensor (vi_name t) (map render_dim (vi_dim_values t))"

text \<open>\<open>xs[0]\<close>\<close>

fun first :: "'a list \<Rightarrow> py_exn + 'a" where
  "first [] = Inl IndexError"
| "first (x # rest) = Inr x"

text \<open>\<open>dim > 0\<close> for an element of a session shape.\<close>

fun dim_gt_zero :: "dim \<Rightarrow> py_exn + bool" where
  "dim_gt_zero (DimInt n) = Inr (n > 0)"
| "dim_gt_zero (DimStr s) = Inl TypeError"
| "dim_gt_zero DimNone = Inl TypeError"

text \<open>
  \<open>all(dim > 0 for dim in shape)\<close>: the generator is consumed from the left, \<open>all\<close>
  stops at the first false element, and a comparison that raises ends it.
\<close>

fun all_positive :: "dim list \<Rightarrow> py_exn + bool" where
  "all_positive [] = Inr True"
| "all_positive (d # ds) =
     (case dim_gt_zero d of
        Inl e \<Rightarrow> Inl e
      | Inr b \<Rightarrow> (if b then all_positive ds else Inr False))"

text \<open>Lines 58 to 60; \<open>and\<close> evaluates its right operand only if the left one is true.\<close>

definition is_compatible :: "node_arg \<Rightarrow> py_exn + bool" where
  "is_compatible input_info =
     (if na_name input_info = ''images'' then
        (if length (na_shape input_info) = 4 then all_positive (na_shape input_info)
         else Inr False)
      else Inr False)"

text \<open>Lines 49 to 63, the body of the inner \<open>try\<close>.\<close>

definition session_test :: "world \<Rightarrow> string \<Rightarrow> bool comp" where
  "session_test w model_path =
     bind (emit (CallInferenceSession model_path)) (\<lambda>_.
     bind (lift (ort_InferenceSession w model_path)) (\<lambda>session.
     bind (lift (first (get_inputs session))) (\<lambda>input_info.
     bind (lift (first (get_outputs session))) (\<lambda>output_info.
     bind (emit PrintSessionCreated) (\<lambda>_.
     bind (emit (PrintSessionInput (na_name input_info) (na_shape input_info))) (\<lambda>_.
     bind (emit (PrintSessionOutput (na_name output_info) (na_shape output_info))) (\<lambda>_.
     bind (lift (is_compatible input_info)) (\<lambda>compatible.
     bind (emit (PrintCompatibility compatible)) (\<lambda>_.
     ret True)))))))))"

text \<open>Lines 32 to 44: the prints about the loaded model.\<close>

definition introspect :: "model_proto \<Rightarrow> event list" where
  "introspect model =
     [PrintProducer (producer_name model), PrintVersion (model_version model)]
     @ [PrintInputsTitle] @ map print_tensor (graph_input model)
     @ [PrintOutputsTitle] @ map print_tensor (graph_output model)"

text \<open>Lines 26 to 67, the body of the outer \<open>try\<close>.\<close>

definition validate :: "world \<Rightarrow> string \<Rightarrow> bool comp" where
  "validate w model_path =
     bind (emit PrintValidating) (\<lambda>_.
     bind (emit (CallLoad model_path)) (\<lambda>_.
     bind (lift (onnx_load w model_path)) (\<lambda>model.
     bind (emit CallCheckModel) (\<lambda>_.
     bind (lift (onnx_check_model w model)) (\<lambda>_.
     bind (emit PrintStructureValid) (\<lambda>_.
     bind (introspect model, Inr ()) (\<lambda>_.
     bind (emit PrintSessionTest) (\<lambda>_.
     try_except (session_test w model_path)
       (\<lambda>rt_ex. bind (emit (PrintRuntimeError rt_ex)) (\<lambda>_. ret False))))))))))"

definition check_onnx_model :: "world \<Rightarrow> string \<Rightarrow> bool comp" where
  "check_onnx_model w model_path =
     bind (emit (PrintHeader (basename model_path))) (\<lambda>_.
     if \<not> path_exists w model_path then
       bind (emit PrintFileMissing) (\<lambda>_. ret False)
     else
       bind (emit (PrintFileSize (path_getsize w model_path))) (\<lambda>_.
       try_except (validate w model_path)
         (\<lambda>ex. bind (emit (PrintValidationFailed ex)) (\<lambda>_. ret False))))"

subsection \<open>main\<close>

definition models_dir :: string where
  "models_dir =
     ''/mnt/d/000.Source/SafetyVisionMonitor/SafetyVisionMonitor/bin/Debug/net8.0-windows/Models''"

definition model_files :: "string list" where
  "model_files =
     [''yolov8s.onnx'', ''yolov8s-pose.onnx'', ''yolov8s-seg.onnx'', ''olov8s-cls.onnx'',
      ''yolov8s-obb.onnx'']"

text \<open>
  Lines 94 to 99: the loop, from the counters \<open>(valid_models, total_models)\<close> it starts
  with to the counters it ends with.
\<close>

fun main_loop :: "world \<Rightarrow> string list \<Rightarrow> int \<times> int \<Rightarrow> (int \<times> int) comp" where
  "main_loop w [] counters = ret counters"
| "main_loop w (model_file # rest) (valid_models, total_models) =
     bind (check_onnx_model w (path_join models_dir model_file)) (\<lambda>ok.
     main_loop w rest
       (if ok then valid_models + 1 else valid_models, total_models + 1))"

definition warning_block :: "event list" where
  "warning_block = [PrintWarning, PrintHowToFix, PrintAdvice 1, PrintAdvice 2, PrintAdvice 3]"

definition main :: "world \<Rightarrow> unit comp" where
  "main w =
     bind (emit PrintTitle) (\<lambda>_.
     if \<not> path_exists w models_dir then emit (PrintNoModelsDir models_dir)
     else
       bind (main_loop w model_files (0, 0)) (\<lambda>(valid_models, total_models).
       bind (emit PrintResultTitle) (\<lambda>_.
       bind (emit (PrintSummary total_models valid_models)) (\<lambda>_.
       if valid_models < total_models then (warning_block, Inr ()) else ret ()))))"

subsection \<open>Observations on a log\<close>

text \<open>
  The steps of a validation: the three library calls, and the line printed for a graph
  tensor (the introspection of lines 36 to 44).
\<close>

fun is_step :: "event \<Rightarrow> bool" where
  "is_step (CallLoad p) = True"
| "is_step CallCheckModel = True"
| "is_step (PrintTensor n sh) = True"
| "is_step (CallInferenceSession p) = True"
| "is_step ev = False"

definition steps :: "event list \<Rightarrow> event list" where
  "steps l = filter is_step l"

text \<open>The file names of the headers printed, one for each call of \<open>check_onnx_model\<close>.\<close>

fun headers :: "event list \<Rightarrow> string list" where
  "headers [] = []"
| "headers (PrintHeader n # l) = n # headers l"
| "headers (ev # l) = headers l"

text \<open>What \<open>check_onnx_model\<close> returns for a file of the models directory.\<close>

definition is_valid :: "world \<Rightarrow> string \<Rightarrow> bool" where
  "is_valid w model_file =
     (result_of (check_onnx_model w (path_join models_dir model_file)) = Inr True)"

text \<open>
  What an existing file puts on the log up to the call of \<open>onnx.load\<close>, and what a
  model that loads and passes \<open>check_model\<close> puts on it up to the call of
  \<open>InferenceSession\<close>.
\<close>

definition prologue :: "world \<Rightarrow> string \<Rightarrow> event list" where
  "prologue w p = [PrintHeader (basename p), PrintFileSize (path_getsize w p), PrintValidating, CallLoad p]"

definition checked_log :: "world \<Rightarrow> string \<Rightarrow> model_proto \<Rightarrow> event list" where
  "checked_log w p m =
     prologue w p @ [CallCheckModel, PrintStructureValid] @ introspect m @
     [PrintSessionTest, CallInferenceSession p]"

subsection \<open>Example worlds\<close>

text \<open>
  A YOLOv8 detection model exported with a dynamic batch dimension, and worlds in which
  every file exists and the calls answer as given.
\<close>

definition yolo_model :: model_proto where
  "yolo_model =
     \<lparr>producer_name = ''pytorch'', model_version = 0,
      graph_input = [\<lparr>vi_name = ''images'', vi_dim_values = [0, 3, 640, 640]\<rparr>],
      graph_output = [\<lparr>vi_name = ''output0'', vi_dim_values = [0, 84, 8400]\<rparr>]\<rparr>"

definition world_of ::
  "(py_exn + model_proto) \<Rightarrow> (py_exn + unit) \<Rightarrow> (py_exn + inference_session) \<Rightarrow> world" where
  "world_of loaded checked session =
     \<lparr>path_exists = (\<lambda>_. True), path_getsize = (\<lambda>_. 44000000),
      onnx_load = (\<lambda>_. loaded), onnx_check_model = (\<lambda>_. checked),
      ort_InferenceSession = (\<lambda>_. session)\<rparr>"

definition session_of :: "node_arg \<Rightarrow> inference_session" where
  "session_of input_info =
     \<lparr>get_inputs = [input_info],
      get_outputs = [\<lparr>na_name = ''output0'', na_shape = [DimInt 1, DimInt 84, DimInt 8400]\<rparr>]\<rparr>"

definition static_input :: node_arg where
  "static_input = \<lparr>na_name = ''images'', na_shape = [DimInt 1, DimInt 3, DimInt 640, DimInt 640]\<rparr>"

definition dynamic_input :: node_arg where
  "dynamic_input =
     \<lparr>na_name = ''images'', na_shape = [DimStr ''batch'', DimInt 3, DimInt 640, DimInt 640]\<rparr>"

definition renamed_input :: node_arg where
  "renamed_input = \<lparr>na_name = ''input'', na_shape = [DimInt 1, DimInt 3, DimInt 640, DimInt 640]\<rparr>"

definition loadable_world :: "node_arg \<Rightarrow> world" where
  "loadable_world input_info = world_of (Inr yolo_model) (Inr ()) (Inr (session_of input_info))"

text \<open>A world with the models directory and no file in it.\<close>

definition empty_dir_world :: world where
  "empty_dir_world =
     \<lparr>path_exists = (\<lambda>p. p = models_dir), path_getsize = (\<lambda>_. 0),
      onnx_load = (\<lambda>_. Inl (LibraryError ''no such file'')),
      onnx_check_model = (\<lambda>_. Inr ()),
      ort_InferenceSession = (\<lambda>_. Inl (LibraryError ''no such file''))\<rparr>"

section \<open>Running the computations\<close>

subsection \<open>Sequencing and handlers\<close>

lemma bind_emit: "bind (emit ev) f = (ev # fst (f ()), snd (f ()))"
  by (simp add: bind_def emit_def split: prod.splits)

lemma bind_ret: "bind (ret x) f = f x"
  by (simp add: bind_def ret_def split: prod.splits)

lemma bind_lift_Inr: "bind (lift (Inr x)) f = f x"
  by (simp add: bind_def lift_def split: prod.splits)

lemma bind_lift_Inl: "bind (lift (Inl e)) f = ([], Inl e)"
  by (simp add: bind_def lift_def)

lemma bind_log: "bind (l, Inr x) f = (l @ fst (f x), snd (f x))"
  by (simp add: bind_def split: prod.splits)

lemma bind_raised: "bind (l, Inl e) f = (l, Inl e)"
  by (simp add: bind_def)

lemma try_except_Inr: "try_except (l, Inr x) h = (l, Inr x)"
  by (simp add: try_except_def)

lemma try_except_Inl: "try_except (l, Inl e) h = (l @ fst (h e), snd (h e))"
  by (simp add: try_except_def split: prod.splits)

lemmas comp_simps =
  bind_emit bind_ret bind_lift_Inr bind_lift_Inl bind_log bind_raised try_except_Inr try_except_Inl

lemma session_test_session_raises:
  "ort_InferenceSession w p = Inl e \<Longrightarrow> session_test w p = ([CallInferenceSession p], Inl e)"
  by (simp add: session_test_def comp_simps)

lemma session_test_no_input:
  "ort_InferenceSession w p = Inr s \<Longrightarrow> first (get_inputs s) = Inl e \<Longrightarrow>
   session_test w p = ([CallInferenceSession p], Inl e)"
  by (simp add: session_test_def comp_simps)

lemma session_test_no_output:
  "ort_InferenceSession w p = Inr s \<Longrightarrow> first (get_inputs s) = Inr i \<Longrightarrow>
   first (get_outputs s) = Inl e \<Longrightarrow>
   session_test w p = ([CallInferenceSession p], Inl e)"
  by (simp add: session_test_def comp_simps)

lemma session_test_compat_raises:
  "ort_InferenceSession w p = Inr s \<Longrightarrow> first (get_inputs s) = Inr i \<Longrightarrow>
   first (get_outputs s) = Inr out \<Longrightarrow> is_compatible i = Inl e \<Longrightarrow>
   session_test w p =
     ([CallInferenceSession p, PrintSessionCreated, PrintSessionInput (na_name i) (na_shape i),
       PrintSessionOutput (na_name out) (na_shape out)], Inl e)"
  by (simp add: session_test_def comp_simps)

lemma session_test_ok:
  "ort_InferenceSession w p = Inr s \<Longrightarrow> first (get_inputs s) = Inr i \<Longrightarrow>
   first (get_outputs s) = Inr out \<Longrightarrow> is_compatible i = Inr c \<Longrightarrow>
   session_test w p =
     ([CallInferenceSession p, PrintSessionCreated, PrintSessionInput (na_name i) (na_shape i),
       PrintSessionOutput (na_name out) (na_shape out), PrintCompatibility c], Inr True)"
  by (simp add: session_test_def comp_simps ret_def)

lemma validate_load_raises:
  "onnx_load w p = Inl e \<Longrightarrow> validate w p = ([PrintValidating, CallLoad p], Inl e)"
  by (simp add: validate_def comp_simps)

lemma validate_check_raises:
  "onnx_load w p = Inr m \<Longrightarrow> onnx_check_model w m = Inl e \<Longrightarrow>
   validate w p = ([PrintValidating, CallLoad p, CallCheckModel], Inl e)"
  by (simp add: validate_def comp_simps)

lemma validate_session_raised:
  "onnx_load w p = Inr m \<Longrightarrow> onnx_check_model w m = Inr u \<Longrightarrow>
   session_test w p = (l, Inl e) \<Longrightarrow>
   validate w p =
     ([PrintValidating, CallLoad p, CallCheckModel, PrintStructureValid] @ introspect m @
      PrintSessionTest # l @ [PrintRuntimeError e], Inr False)"
  by (simp add: validate_def comp_simps ret_def)

lemma validate_session_returned:
  "onnx_load w p = Inr m \<Longrightarrow> onnx_check_model w m = Inr u \<Longrightarrow>
   session_test w p = (l, Inr b) \<Longrightarrow>
   validate w p =
     ([PrintValidating, CallLoad p, CallCheckModel, PrintStructureValid] @ introspect m @
      PrintSessionTest # l, Inr b)"
  by (simp add: validate_def comp_simps ret_def)

lemma check_validate_raised:
  "path_exists w p \<Longrightarrow> validate w p = (l, Inl e) \<Longrightarrow>
   check_onnx_model w p =
     (PrintHeader (basename p) # PrintFileSize (path_getsize w p) # l @ [PrintValidationFailed e],
      Inr False)"
  by (simp add: check_onnx_model_def comp_simps ret_def)

lemma check_validate_returned:
  "path_exists w p \<Longrightarrow> validate w p = (l, Inr b) \<Longrightarrow>
   check_onnx_model w p =
     (PrintHeader (basename p) # PrintFileSize (path_getsize w p) # l, Inr b)"
  by (simp add: check_onnx_model_def comp_simps ret_def)

lemma check_missing:
  "\<not> path_exists w p \<Longrightarrow>
   check_onnx_model w p = ([PrintHeader (basename p), PrintFileMissing], Inr False)"
  by (simp add: check_onnx_model_def comp_simps ret_def)

lemma check_load_raises:
  "path_exists w p \<Longrightarrow> onnx_load w p = Inl e \<Longrightarrow>
   check_onnx_model w p = (prologue w p @ [PrintValidationFailed e], Inr False)"
  by (simp add: check_validate_raised [OF _ validate_load_raises] prologue_def)

lemma check_check_raises:
  "path_exists w p \<Longrightarrow> onnx_load w p = Inr m \<Longrightarrow> onnx_check_model w m = Inl e \<Longrightarrow>
   check_onnx_model w p = (prologue w p @ [CallCheckModel, PrintValidationFailed e], Inr False)"
  by (simp add: check_validate_raised [OF _ validate_check_raises] prologue_def)

lemma check_session_raises:
  "path_exists w p \<Longrightarrow> onnx_load w p = Inr m \<Longrightarrow> onnx_check_model w m = Inr u \<Longrightarrow>
   ort_InferenceSession w p = Inl e \<Longrightarrow>
   check_onnx_model w p = (checked_log w p m @ [PrintRuntimeError e], Inr False)"
  by (simp add: check_validate_returned
        [OF _ validate_session_raised [OF _ _ session_test_session_raises]]
      prologue_def checked_log_def)

lemma check_no_input:
  "path_exists w p \<Longrightarrow> onnx_load w p = Inr m \<Longrightarrow> onnx_check_model w m = Inr u \<Longrightarrow>
   ort_InferenceSession w p = Inr s \<Longrightarrow> first (get_inputs s) = Inl e \<Longrightarrow>
   check_onnx_model w p = (checked_log w p m @ [PrintRuntimeError e], Inr False)"
  by (simp add: check_validate_returned
        [OF _ validate_session_raised [OF _ _ session_test_no_input]]
      prologue_def checked_log_def)

lemma check_no_output:
  "path_exists w p \<Longrightarrow> onnx_load w p = Inr m \<Longrightarrow> onnx_check_model w m = Inr u \<Longrightarrow>
   ort_InferenceSession w p = Inr s \<Longrightarrow> first (get_inputs s) = Inr i \<Longrightarrow>
   first (get_outputs s) = Inl e \<Longrightarrow>
   check_onnx_model w p = (checked_log w p m @ [PrintRuntimeError e], Inr False)"
  by (simp add: check_validate_returned
        [OF _ validate_session_raised [OF _ _ session_test_no_output]]
      prologue_def checked_log_def)

lemma check_compat_raises:
  "path_exists w p \<Longrightarrow> onnx_load w p = Inr m \<Longrightarrow> onnx_check_model w m = Inr u \<Longrightarrow>
   ort_InferenceSession w p = Inr s \<Longrightarrow> first (get_inputs s) = Inr i \<Longrightarrow>
   first (get_outputs s) = Inr out \<Longrightarrow> is_compatible i = Inl e \<Longrightarrow>
   check_onnx_model w p =
     (checked_log w p m @
      [PrintSessionCreated, PrintSessionInput (na_name i) (na_shape i),
       PrintSessionOutput (na_name out) (na_shape out), PrintRuntimeError e], Inr False)"
  by (simp add: check_validate_returned
        [OF _ validate_session_raised [OF _ _ session_test_compat_raises]]
      prologue_def checked_log_def)

lemma check_ok:
  "path_exists w p \<Longrightarrow> onnx_load w p = Inr m \<Longrightarrow> onnx_check_model w m = Inr u \<Longrightarrow>
   ort_InferenceSession w p = Inr s \<Longrightarrow> first (get_inputs s) = Inr i \<Longrightarrow>
   first (get_outputs s) = Inr out \<Longrightarrow> is_compatible i = Inr c \<Longrightarrow>
   check_onnx_model w p =
     (checked_log w p m @
      [PrintSessionCreated, PrintSessionInput (na_name i) (na_shape i),
       PrintSessionOutput (na_name out) (na_shape out), PrintCompatibility c], Inr True)"
  by (simp add: check_validate_returned
        [OF _ validate_session_returned [OF _ _ session_test_ok]]
      prologue_def checked_log_def)

lemma check_onnx_model_cases [case_names missing load_raises check_raises session_raises
    no_input no_output compat_raises ok]:
  obtains
    "\<not> path_exists w p"
  | e where "path_exists w p" "onnx_load w p = Inl e"
  | m e where "path_exists w p" "onnx_load w p = Inr m" "onnx_check_model w m = Inl e"
  | m e where "path_exists w p" "onnx_load w p = Inr m" "onnx_check_model w m = Inr ()"
      "ort_InferenceSession w p = Inl e"
  | m s e where "path_exists w p" "onnx_load w p = Inr m" "onnx_check_model w m = Inr ()"
      "ort_InferenceSession w p = Inr s" "first (get_inputs s) = Inl e"
  | m s i e where "path_exists w p" "onnx_load w p = Inr m" "onnx_check_model w m = Inr ()"
      "ort_InferenceSession w p = Inr s" "first (get_inputs s) = Inr i"
      "first (get_outputs s) = Inl e"
  | m s i out e where "path_exists w p" "onnx_load w p = Inr m" "onnx_check_model w m = Inr ()"
      "ort_InferenceSession w p = Inr s" "first (get_inputs s) = Inr i"
      "first (get_outputs s) = Inr out" "is_compatible i = Inl e"
  | m s i out c where "path_exists w p" "onnx_load w p = Inr m" "onnx_check_model w m = Inr ()"
      "ort_InferenceSession w p = Inr s" "first (get_inputs s) = Inr i"
      "first (get_outputs s) = Inr out" "is_compatible i = Inr c"
proof (cases "path_exists w p")
  case False
  then show ?thesis using that(1) by blast
next
  case ex: True
  show ?thesis
  proof (cases "onnx_load w p")
    case (Inl e)
    then show ?thesis using that(2) ex by blast
  next
    case ld: (Inr m)
    show ?thesis
    proof (cases "onnx_check_model w m")
      case (Inl e)
      then show ?thesis using that(3) ex ld by blast
    next
      case ck: (Inr u)
      show ?thesis
      proof (cases "ort_InferenceSession w p")
        case (Inl e)
        then show ?thesis using that(4) ex ld ck by simp
      next
        case se: (Inr s)
        show ?thesis
        proof (cases "first (get_inputs s)")
          case (Inl e)
          then show ?thesis using that(5) ex ld ck se by simp
        next
          case inp: (Inr i)
          show ?thesis
          proof (cases "first (get_outputs s)")
            case (Inl e)
            then show ?thesis using that(6) ex ld ck se inp by simp
          next
            case outp: (Inr out)
            show ?thesis
            proof (cases "is_compatible i")
              case (Inl e)
              then show ?thesis using that(7) ex ld ck se inp outp by simp
            next
              case (Inr c)
              then show ?thesis using that(8) ex ld ck se inp outp by simp
            qed
          qed
        qed
      qed
    qed
  qed
qed

lemma check_onnx_model_returns: "\<exists>b. result_of (check_onnx_model w p) = Inr b"
  by (cases rule: check_onnx_model_cases [of w p])
    (auto simp: result_of_def check_missing check_load_raises check_check_raises
      check_session_raises check_no_input check_no_output check_compat_raises check_ok)

subsection \<open>The steps on a log\<close>

lemmas check_runs =
  check_missing check_load_raises check_check_raises check_session_raises check_no_input
  check_no_output check_compat_raises check_ok

lemma steps_append: "steps (l @ l') = steps l @ steps l'"
  by (simp add: steps_def)

lemma steps_tensors: "steps (map print_tensor ts) = map print_tensor ts"
  by (induction ts) (simp_all add: steps_def print_tensor_def)

lemma steps_introspect:
  "steps (introspect m) = map print_tensor (graph_input m) @ map print_tensor (graph_output m)"
proof -
  have "steps (introspect m) =
      steps (map print_tensor (graph_input m)) @ steps (map print_tensor (graph_output m))"
    by (simp add: introspect_def steps_def)
  then show ?thesis by (simp add: steps_tensors)
qed

lemma steps_prologue: "steps (prologue w p) = [CallLoad p]"
  by (simp add: prologue_def steps_def)

lemma steps_checked_log:
  "steps (checked_log w p m) =
     [CallLoad p, CallCheckModel] @ map print_tensor (graph_input m) @
     map print_tensor (graph_output m) @ [CallInferenceSession p]"
proof -
  have "steps (checked_log w p m) =
      steps (prologue w p) @ [CallCheckModel] @ steps (introspect m) @ [CallInferenceSession p]"
    by (simp add: checked_log_def steps_def)
  then show ?thesis by (simp add: steps_prologue steps_introspect)
qed

subsection \<open>The loop of main\<close>

lemma check_onnx_model_run:
  "check_onnx_model w p = (log_of (check_onnx_model w p), Inr (result_of (check_onnx_model w p) = Inr True))"
  using check_onnx_model_returns [of w p]
  by (cases "check_onnx_model w p") (auto simp: log_of_def result_of_def)

lemma main_loop_run:
  "main_loop w fs (valid_models, total_models) =
     (concat (map (\<lambda>f. log_of (check_onnx_model w (path_join models_dir f))) fs),
      Inr (valid_models + int (length (filter (is_valid w) fs)), total_models + int (length fs)))"
proof (induction fs arbitrary: valid_models total_models)
  case Nil
  show ?case by (simp add: ret_def)
next
  case (Cons f fs)
  show ?case
    by (subst main_loop.simps, subst check_onnx_model_run)
      (simp add: bind_log Cons.IH is_valid_def [abs_def])
qed

lemma main_loop_append:
  "main_loop w (fs @ gs) c = bind (main_loop w fs c) (main_loop w gs)"
  by (cases c) (simp add: main_loop_run bind_log)

lemma main_run:
  "path_exists w models_dir \<Longrightarrow>
   main w =
     (PrintTitle # concat (map (\<lambda>f. log_of (check_onnx_model w (path_join models_dir f))) model_files) @
      PrintResultTitle # PrintSummary (int (length model_files)) (int (length (filter (is_valid w) model_files))) #
      (if length (filter (is_valid w) model_files) < length model_files then warning_block else []),
      Inr ())"
  by (simp add: main_def main_loop_run comp_simps ret_def)

lemma main_no_dir:
  "\<not> path_exists w models_dir \<Longrightarrow> main w = ([PrintTitle, PrintNoModelsDir models_dir], Inr ())"
  by (simp add: main_def comp_simps emit_def)

lemma headers_append: "headers (l @ l') = headers l @ headers l'"
  by (induction l rule: headers.induct) simp_all

lemma headers_tensors: "headers (map print_tensor ts) = []"
  by (induction ts) (simp_all add: print_tensor_def)

lemma headers_introspect: "headers (introspect m) = []"
  by (simp add: introspect_def headers_append headers_tensors)

lemma headers_checked_log: "headers (checked_log w p m) = [basename p]"
  by (simp add: checked_log_def prologue_def headers_append headers_introspect)

lemma headers_check: "headers (log_of (check_onnx_model w p)) = [basename p]"
  by (cases rule: check_onnx_model_cases [of w p])
    (simp_all add: check_runs log_of_def headers_append headers_checked_log prologue_def)

lemma takeWhile_to_slash:
  assumes "CHR ''/'' \<notin> set f"
  shows "takeWhile (\<lambda>c. c \<noteq> CHR ''/'') (rev f @ CHR ''/'' # xs) = rev f"
proof -
  have "\<And>c. c \<in> set (rev f) \<Longrightarrow> c \<noteq> CHR ''/''"
    using assms by auto
  then have "takeWhile (\<lambda>c. c \<noteq> CHR ''/'') (rev f @ CHR ''/'' # xs) =
      rev f @ takeWhile (\<lambda>c. c \<noteq> CHR ''/'') (CHR ''/'' # xs)"
    by (rule takeWhile_append2)
  then show ?thesis by simp
qed

lemma basename_no_slash:
  assumes "CHR ''/'' \<notin> set f"
  shows "basename f = f"
proof -
  have "takeWhile (\<lambda>c. c \<noteq> CHR ''/'') (rev f) = rev f"
    using assms by (intro takeWhile_eq_all_conv [THEN iffD2]) auto
  then show ?thesis by (simp only: basename_def rev_rev_ident)
qed

lemma basename_after_slash:
  assumes "CHR ''/'' \<notin> set f"
  shows "basename (d @ CHR ''/'' # f) = f"
  using takeWhile_to_slash [OF assms, of "rev d"] by (simp add: basename_def)

lemma basename_path_join:
  assumes "CHR ''/'' \<notin> set f"
  shows "basename (path_join d f) = f"
proof -
  have nohd: "\<not> (f \<noteq> [] \<and> hd f = CHR ''/'')"
    using assms by (cases f) auto
  show ?thesis
  proof (cases "d = []")
    case True
    then show ?thesis using nohd basename_no_slash [OF assms] by (auto simp: path_join_def)
  next
    case False
    then obtain d' c where d: "d = d' @ [c]" by (metis rev_exhaust)
    show ?thesis
    proof (cases "c = CHR ''/''")
      case True
      then show ?thesis
        using nohd basename_after_slash [OF assms, of d'] by (auto simp: path_join_def d)
    next
      case False
      then show ?thesis
        using nohd basename_after_slash [OF assms, of d] by (auto simp: path_join_def d)
    qed
  qed
qed

lemma headers_main_loop:
  "(\<And>f. f \<in> set fs \<Longrightarrow> CHR ''/'' \<notin> set f) \<Longrightarrow>
   headers (concat (map (\<lambda>f. log_of (check_onnx_model w (path_join models_dir f))) fs)) = fs"
  by (induction fs) (simp_all add: headers_append headers_check basename_path_join)

lemma no_slash_model_files: "f \<in> set model_files \<Longrightarrow> CHR ''/'' \<notin> set f"
  by (auto simp: model_files_def)

section \<open>The claims\<close>
lemmas example_defs =
  loadable_world_def world_of_def session_of_def static_input_def dynamic_input_def
  renamed_input_def yolo_model_def

subsection \<open>A file that does not exist\<close>

text \<open>
  Claim C8. For a path whose file does not exist, \<open>check_onnx_model\<close> returns \<open>False\<close>
  right after the header and the message of line 17: these two prints are the whole log,
  so neither \<open>onnx.load\<close> nor \<open>check_model\<close> nor \<open>InferenceSession\<close> is called, and
  the result is a value, not an exception.
\<close>

theorem missing_file_returns_False:
  "\<not> path_exists w p \<Longrightarrow>
   result_of (check_onnx_model w p) = Inr False \<and>
   log_of (check_onnx_model w p) = [PrintHeader (basename p), PrintFileMissing] \<and>
   steps (log_of (check_onnx_model w p)) = []"
  by (simp add: check_missing result_of_def log_of_def steps_def)

theorem missing_file_returns_False_witness:
  "\<not> path_exists empty_dir_world ''missing.onnx'' \<and>
   result_of (check_onnx_model empty_dir_world ''missing.onnx'') = Inr False \<and>
   log_of (check_onnx_model empty_dir_world ''missing.onnx'') =
     [PrintHeader ''missing.onnx'', PrintFileMissing]"
proof -
  have h: "\<not> path_exists empty_dir_world ''missing.onnx''"
    by (simp add: empty_dir_world_def models_dir_def)
  show ?thesis
    using h missing_file_returns_False [OF h] by (simp add: basename_def)
qed

subsection \<open>The order of the library calls\<close>

text \<open>
  Claim C4. For an existing file the steps of \<open>check_onnx_model\<close> are, in this order,
  \<open>onnx.load\<close>, \<open>check_model\<close>, the lines printed for the graph inputs and outputs, and
  \<open>InferenceSession\<close>; the steps stop after \<open>onnx.load\<close> when it raises, after
  \<open>check_model\<close> when that raises, and otherwise all of them are made.
\<close>

theorem library_calls_in_fixed_order:
  "path_exists w p \<Longrightarrow>
   steps (log_of (check_onnx_model w p)) =
     (case onnx_load w p of
        Inl e \<Rightarrow> [CallLoad p]
      | Inr m \<Rightarrow>
          (case onnx_check_model w m of
             Inl e \<Rightarrow> [CallLoad p, CallCheckModel]
           | Inr u \<Rightarrow>
               [CallLoad p, CallCheckModel] @ map print_tensor (graph_input m) @
               map print_tensor (graph_output m) @ [CallInferenceSession p]))"
proof (cases rule: check_onnx_model_cases [of w p])
  case missing
  assume "path_exists w p"
  with missing show ?thesis by simp
next
  case (load_raises e)
  then show ?thesis
    by (simp add: check_load_raises log_of_def steps_append steps_prologue) (simp add: steps_def)
next
  case (check_raises m e)
  then show ?thesis
    by (simp add: check_check_raises log_of_def steps_append steps_prologue) (simp add: steps_def)
next
  case (session_raises m e)
  then show ?thesis
    by (simp add: check_session_raises log_of_def steps_append steps_checked_log)
      (simp add: steps_def)
next
  case (no_input m s e)
  then show ?thesis
    by (simp add: check_no_input log_of_def steps_append steps_checked_log)
      (simp add: steps_def)
next
  case (no_output m s i e)
  then show ?thesis
    by (simp add: check_no_output log_of_def steps_append steps_checked_log)
      (simp add: steps_def)
next
  case (compat_raises m s i out e)
  then show ?thesis
    by (simp add: check_compat_raises log_of_def steps_append steps_checked_log)
      (simp add: steps_def)
next
  case (ok m s i out c)
  then show ?thesis
    by (simp add: check_ok log_of_def steps_append steps_checked_log)
      (simp add: steps_def)
qed

theorem library_calls_in_fixed_order_witness:
  "path_exists (loadable_world static_input) ''m.onnx'' \<and>
   steps (log_of (check_onnx_model (loadable_world static_input) ''m.onnx'')) =
     [CallLoad ''m.onnx'', CallCheckModel,
      PrintTensor ''images'' [ShapeDynamic, ShapeNum 3, ShapeNum 640, ShapeNum 640],
      PrintTensor ''output0'' [ShapeDynamic, ShapeNum 84, ShapeNum 8400],
      CallInferenceSession ''m.onnx'']"
proof -
  have h: "path_exists (loadable_world static_input) ''m.onnx''"
    by (simp add: example_defs)
  show ?thesis
    using h library_calls_in_fixed_order [OF h]
    by (simp add: example_defs print_tensor_def render_dim_def)
qed

subsection \<open>The shapes printed for the graph tensors\<close>

lemma tensor_lines_checked_log:
  "(PrintTensor n sh \<in> set (checked_log w p m)) =
   (PrintTensor n sh \<in> print_tensor ` (set (graph_input m) \<union> set (graph_output m)))"
  by (auto simp: checked_log_def prologue_def introspect_def print_tensor_def)

lemma tensor_lines_check:
  "path_exists w p \<Longrightarrow> onnx_load w p = Inr m \<Longrightarrow> onnx_check_model w m = Inr () \<Longrightarrow>
   (PrintTensor n sh \<in> set (log_of (check_onnx_model w p))) =
   (PrintTensor n sh \<in> print_tensor ` (set (graph_input m) \<union> set (graph_output m)))"
  by (cases rule: check_onnx_model_cases [of w p])
    (simp_all add: check_runs log_of_def tensor_lines_checked_log)

text \<open>
  Claim C6. When the model loads and passes \<open>check_model\<close>, the tensor lines on the log
  are those of the graph inputs and outputs, and in the shape printed for a tensor every
  dimension is its \<open>dim_value\<close> when that is strictly positive and \<open>'dynamic'\<close> when it
  is zero or negative.
\<close>

theorem tensor_shapes_rendered:
  "path_exists w p \<Longrightarrow> onnx_load w p = Inr m \<Longrightarrow> onnx_check_model w m = Inr () \<Longrightarrow>
   (PrintTensor n sh \<in> set (log_of (check_onnx_model w p))) =
   (\<exists>t. (t \<in> set (graph_input m) \<or> t \<in> set (graph_output m)) \<and> n = vi_name t \<and>
        length sh = length (vi_dim_values t) \<and>
        (\<forall>k < length sh. sh ! k =
           (if vi_dim_values t ! k > 0 then ShapeNum (vi_dim_values t ! k) else ShapeDynamic)))"
proof -
  assume a: "path_exists w p" "onnx_load w p = Inr m" "onnx_check_model w m = Inr ()"
  have r: "\<And>t. (sh = map render_dim (vi_dim_values t)) =
      (length sh = length (vi_dim_values t) \<and>
       (\<forall>k < length sh. sh ! k =
          (if vi_dim_values t ! k > 0 then ShapeNum (vi_dim_values t ! k) else ShapeDynamic)))"
    by (auto simp: list_eq_iff_nth_eq render_dim_def)
  have "(PrintTensor n sh \<in> print_tensor ` (set (graph_input m) \<union> set (graph_output m))) =
      (\<exists>t. (t \<in> set (graph_input m) \<or> t \<in> set (graph_output m)) \<and> n = vi_name t \<and>
           sh = map render_dim (vi_dim_values t))"
    by (auto simp: print_tensor_def)
  then show ?thesis
    unfolding tensor_lines_check [OF a] r .
qed

theorem tensor_shapes_rendered_witness:
  "path_exists (loadable_world static_input) ''m.onnx'' \<and>
   onnx_load (loadable_world static_input) ''m.onnx'' = Inr yolo_model \<and>
   onnx_check_model (loadable_world static_input) yolo_model = Inr () \<and>
   PrintTensor ''images'' [ShapeDynamic, ShapeNum 3, ShapeNum 640, ShapeNum 640]
     \<in> set (log_of (check_onnx_model (loadable_world static_input) ''m.onnx''))"
proof -
  have h1: "path_exists (loadable_world static_input) ''m.onnx''"
    and h2: "onnx_load (loadable_world static_input) ''m.onnx'' = Inr yolo_model"
    and h3: "onnx_check_model (loadable_world static_input) yolo_model = Inr ()"
    by (simp_all add: example_defs)
  let ?t = "\<lparr>vi_name = ''images'', vi_dim_values = [0, 3, 640, 640]\<rparr>"
  let ?sh = "[ShapeDynamic, ShapeNum 3, ShapeNum 640, ShapeNum 640]"
  have "?t \<in> set (graph_input yolo_model)"
    by (simp add: yolo_model_def)
  moreover have "\<forall>k < length ?sh. ?sh ! k =
      (if vi_dim_values ?t ! k > 0 then ShapeNum (vi_dim_values ?t ! k) else ShapeDynamic)"
    by (simp add: nth_Cons' All_less_Suc2 less_Suc_eq)
  ultimately have "PrintTensor ''images'' ?sh
      \<in> set (log_of (check_onnx_model (loadable_world static_input) ''m.onnx''))"
    unfolding tensor_shapes_rendered [OF h1 h2 h3, of "''images''" ?sh]
    by (intro exI [of _ ?t]) simp
  then show ?thesis using h1 h2 h3 by simp
qed

subsection \<open>The compatibility verdict\<close>

text \<open>
  On a shape of integers the verdict of lines 58 to 60 is the conjunction of the three
  checks, and the verdict is true for no other input.
\<close>

lemma all_positive_ints:
  "all_positive (map DimInt ds) = Inr (\<forall>d \<in> set ds. d > 0)"
  by (induction ds) auto

lemma is_compatible_ints:
  "is_compatible \<lparr>na_name = n, na_shape = map DimInt ds\<rparr> =
     Inr (n = ''images'' \<and> length ds = 4 \<and> (\<forall>d \<in> set ds. d > 0))"
  by (simp add: is_compatible_def all_positive_ints)

lemma all_positive_True:
  "(all_positive ds = Inr True) = (\<forall>d \<in> set ds. \<exists>n > 0. d = DimInt n)"
proof (induction ds)
  case Nil
  show ?case by simp
next
  case (Cons d ds)
  show ?case using Cons.IH by (cases d) auto
qed

lemma is_compatible_True:
  "(is_compatible i = Inr True) =
   (na_name i = ''images'' \<and> length (na_shape i) = 4 \<and>
    (\<forall>d \<in> set (na_shape i). \<exists>n > 0. d = DimInt n))"
  by (simp add: is_compatible_def all_positive_True)

text \<open>
  Claim C1. The verdict should be true when the first input is named \<open>images\<close>, has four
  dimensions and all of them are strictly positive, and false otherwise. For the input
  \<open>images\<close> of shape \<open>['batch', 3, 640, 640]\<close> the code gives no verdict: \<open>'batch' > 0\<close>
  raises \<open>TypeError\<close>, the line of the verdict is not printed, the handler of line 65
  prints a runtime error and \<open>check_onnx_model\<close> returns \<open>False\<close>.
\<close>

theorem symbolic_dimension_gives_no_verdict:
  "is_compatible dynamic_input = Inl TypeError \<and>
   check_onnx_model (loadable_world dynamic_input) ''m.onnx'' =
     (checked_log (loadable_world dynamic_input) ''m.onnx'' yolo_model @
      [PrintSessionCreated,
       PrintSessionInput ''images'' [DimStr ''batch'', DimInt 3, DimInt 640, DimInt 640],
       PrintSessionOutput ''output0'' [DimInt 1, DimInt 84, DimInt 8400],
       PrintRuntimeError TypeError],
      Inr False)"
proof -
  have c: "is_compatible dynamic_input = Inl TypeError"
    by (simp add: is_compatible_def dynamic_input_def)
  have "check_onnx_model (loadable_world dynamic_input) ''m.onnx'' =
     (checked_log (loadable_world dynamic_input) ''m.onnx'' yolo_model @
      [PrintSessionCreated,
       PrintSessionInput (na_name dynamic_input) (na_shape dynamic_input),
       PrintSessionOutput (na_name \<lparr>na_name = ''output0'', na_shape = [DimInt 1, DimInt 84, DimInt 8400]\<rparr>)
         (na_shape \<lparr>na_name = ''output0'', na_shape = [DimInt 1, DimInt 84, DimInt 8400]\<rparr>),
       PrintRuntimeError TypeError],
      Inr False)"
    by (rule check_compat_raises [where s = "session_of dynamic_input"])
      (simp_all add: c loadable_world_def world_of_def session_of_def)
  then show ?thesis using c by (simp add: dynamic_input_def)
qed

text \<open>
  Claim C7. There is a model whose session is created, whose first input is named
  \<open>images\<close> and has a shape of four elements, one of them symbolic, for which the
  comparison of the dimensions raises \<open>TypeError\<close>; the handler of the runtime errors
  catches it, so the last line printed is the runtime error and \<open>check_onnx_model\<close>
  returns \<open>False\<close>, after the line that reports the session as created.
\<close>

theorem type_error_reported_as_runtime_error:
  "\<exists>w p s i.
     path_exists w p \<and> ort_InferenceSession w p = Inr s \<and> first (get_inputs s) = Inr i \<and>
     na_name i = ''images'' \<and> length (na_shape i) = 4 \<and> DimStr ''batch'' \<in> set (na_shape i) \<and>
     all_positive (na_shape i) = Inl TypeError \<and>
     result_of (check_onnx_model w p) = Inr False \<and>
     PrintSessionCreated \<in> set (log_of (check_onnx_model w p)) \<and>
     last (log_of (check_onnx_model w p)) = PrintRuntimeError TypeError"
proof -
  let ?w = "loadable_world dynamic_input"
  let ?out = "\<lparr>na_name = ''output0'', na_shape = [DimInt 1, DimInt 84, DimInt 8400]\<rparr>"
  have c: "is_compatible dynamic_input = Inl TypeError"
    by (simp add: is_compatible_def dynamic_input_def)
  have run: "check_onnx_model ?w ''m.onnx'' =
     (checked_log ?w ''m.onnx'' yolo_model @
      [PrintSessionCreated,
       PrintSessionInput (na_name dynamic_input) (na_shape dynamic_input),
       PrintSessionOutput (na_name ?out) (na_shape ?out),
       PrintRuntimeError TypeError],
      Inr False)"
    by (rule check_compat_raises [where s = "session_of dynamic_input"])
      (simp_all add: c loadable_world_def world_of_def session_of_def)
  have "path_exists ?w ''m.onnx'' \<and>
     ort_InferenceSession ?w ''m.onnx'' = Inr (session_of dynamic_input) \<and>
     first (get_inputs (session_of dynamic_input)) = Inr dynamic_input \<and>
     na_name dynamic_input = ''images'' \<and> length (na_shape dynamic_input) = 4 \<and>
     DimStr ''batch'' \<in> set (na_shape dynamic_input) \<and>
     all_positive (na_shape dynamic_input) = Inl TypeError \<and>
     result_of (check_onnx_model ?w ''m.onnx'') = Inr False \<and>
     PrintSessionCreated \<in> set (log_of (check_onnx_model ?w ''m.onnx'')) \<and>
     last (log_of (check_onnx_model ?w ''m.onnx'')) = PrintRuntimeError TypeError"
    by (simp add: run result_of_def log_of_def)
      (simp add: loadable_world_def world_of_def session_of_def dynamic_input_def)
  then show ?thesis by blast
qed

subsection \<open>What the returned value means\<close>

lemma check_True_cases:
  assumes "result_of (check_onnx_model w p) = Inr True"
  shows "path_exists w p \<and>
    (\<exists>m s i out c. onnx_load w p = Inr m \<and> onnx_check_model w m = Inr () \<and>
       ort_InferenceSession w p = Inr s \<and> first (get_inputs s) = Inr i \<and>
       first (get_outputs s) = Inr out \<and> is_compatible i = Inr c)"
  using assms
  by (cases rule: check_onnx_model_cases [of w p])
    (simp_all add: check_runs result_of_def)

text \<open>
  Claim C2 as stated fails: a model whose first input is named \<open>input\<close> loads into a
  session, gets the verdict \<open>False\<close>, and is still reported valid.
\<close>

theorem incompatible_model_reported_valid:
  "ort_InferenceSession (loadable_world renamed_input) ''m.onnx'' = Inr (session_of renamed_input) \<and>
   first (get_inputs (session_of renamed_input)) = Inr renamed_input \<and>
   is_compatible renamed_input = Inr False \<and>
   PrintCompatibility False \<in> set (log_of (check_onnx_model (loadable_world renamed_input) ''m.onnx'')) \<and>
   result_of (check_onnx_model (loadable_world renamed_input) ''m.onnx'') = Inr True"
proof -
  let ?w = "loadable_world renamed_input"
  let ?out = "\<lparr>na_name = ''output0'', na_shape = [DimInt 1, DimInt 84, DimInt 8400]\<rparr>"
  have c: "is_compatible renamed_input = Inr False"
    by (simp add: is_compatible_def renamed_input_def)
  have run: "check_onnx_model ?w ''m.onnx'' =
     (checked_log ?w ''m.onnx'' yolo_model @
      [PrintSessionCreated,
       PrintSessionInput (na_name renamed_input) (na_shape renamed_input),
       PrintSessionOutput (na_name ?out) (na_shape ?out),
       PrintCompatibility False],
      Inr True)"
    by (rule check_ok [where s = "session_of renamed_input"])
      (simp_all add: c loadable_world_def world_of_def session_of_def)
  show ?thesis
    by (simp add: run result_of_def log_of_def c)
      (simp add: loadable_world_def world_of_def session_of_def)
qed

text \<open>
  Claim C2, amended. \<open>check_onnx_model\<close> returns \<open>True\<close> only when the file exists, the
  model loads, passes \<open>check_model\<close> and the inference session is created; and when the
  session is created, has a first input and a first output, and the compatibility check
  gives a verdict, \<open>check_onnx_model\<close> returns \<open>True\<close> whatever the verdict, which is
  only printed.
\<close>

theorem valid_means_session_created:
  "(result_of (check_onnx_model w p) = Inr True \<longrightarrow>
      path_exists w p \<and>
      (\<exists>m s. onnx_load w p = Inr m \<and> onnx_check_model w m = Inr () \<and>
         ort_InferenceSession w p = Inr s)) \<and>
   (path_exists w p \<and> onnx_load w p = Inr m \<and> onnx_check_model w m = Inr () \<and>
    ort_InferenceSession w p = Inr s \<and> first (get_inputs s) = Inr i \<and>
    first (get_outputs s) = Inr out \<and> is_compatible i = Inr c \<longrightarrow>
      result_of (check_onnx_model w p) = Inr True \<and>
      last (log_of (check_onnx_model w p)) = PrintCompatibility c)"
proof (intro conjI impI)
  assume "result_of (check_onnx_model w p) = Inr True"
  from check_True_cases [OF this]
  show "path_exists w p"
    and "\<exists>m s. onnx_load w p = Inr m \<and> onnx_check_model w m = Inr () \<and>
      ort_InferenceSession w p = Inr s"
    by blast+
next
  assume a: "path_exists w p \<and> onnx_load w p = Inr m \<and> onnx_check_model w m = Inr () \<and>
    ort_InferenceSession w p = Inr s \<and> first (get_inputs s) = Inr i \<and>
    first (get_outputs s) = Inr out \<and> is_compatible i = Inr c"
  then have run: "check_onnx_model w p =
     (checked_log w p m @
      [PrintSessionCreated, PrintSessionInput (na_name i) (na_shape i),
       PrintSessionOutput (na_name out) (na_shape out), PrintCompatibility c], Inr True)"
    using check_ok [of w p m "()" s i out c] by blast
  show "result_of (check_onnx_model w p) = Inr True"
    by (simp add: run result_of_def)
  show "last (log_of (check_onnx_model w p)) = PrintCompatibility c"
    by (simp add: run log_of_def)
qed

theorem valid_means_session_created_witness:
  "path_exists (loadable_world renamed_input) ''m.onnx'' \<and>
   onnx_load (loadable_world renamed_input) ''m.onnx'' = Inr yolo_model \<and>
   onnx_check_model (loadable_world renamed_input) yolo_model = Inr () \<and>
   ort_InferenceSession (loadable_world renamed_input) ''m.onnx'' = Inr (session_of renamed_input) \<and>
   first (get_inputs (session_of renamed_input)) = Inr renamed_input \<and>
   is_compatible renamed_input = Inr False \<and>
   result_of (check_onnx_model (loadable_world renamed_input) ''m.onnx'') = Inr True \<and>
   last (log_of (check_onnx_model (loadable_world renamed_input) ''m.onnx'')) =
     PrintCompatibility False"
proof -
  let ?w = "loadable_world renamed_input"
  let ?out = "\<lparr>na_name = ''output0'', na_shape = [DimInt 1, DimInt 84, DimInt 8400]\<rparr>"
  have h: "path_exists ?w ''m.onnx'' \<and> onnx_load ?w ''m.onnx'' = Inr yolo_model \<and>
      onnx_check_model ?w yolo_model = Inr () \<and>
      ort_InferenceSession ?w ''m.onnx'' = Inr (session_of renamed_input) \<and>
      first (get_inputs (session_of renamed_input)) = Inr renamed_input \<and>
      first (get_outputs (session_of renamed_input)) = Inr ?out \<and>
      is_compatible renamed_input = Inr False"
    by (simp add: loadable_world_def world_of_def session_of_def)
      (simp add: is_compatible_def renamed_input_def)
  from valid_means_session_created
    [of ?w "''m.onnx''" yolo_model "session_of renamed_input" renamed_input ?out False]
  have "result_of (check_onnx_model ?w ''m.onnx'') = Inr True \<and>
      last (log_of (check_onnx_model ?w ''m.onnx'')) = PrintCompatibility False"
    using h by blast
  then show ?thesis using h by simp
qed

subsection \<open>Exceptions do not leave check_onnx_model\<close>

text \<open>
  Claim C3. \<open>check_onnx_model\<close> returns a value for every world and path. When
  \<open>onnx.load\<close> or \<open>check_model\<close> raises, the last line printed is the validation
  failure with that exception and the result is \<open>False\<close>; when \<open>InferenceSession\<close>,
  \<open>get_inputs()[0]\<close>, \<open>get_outputs()[0]\<close> or the compatibility check raises, the last
  line printed is the runtime error with that exception and the result is \<open>False\<close>.
  The prints of lines 32 to 44 read fields of the loaded model and raise nothing.
\<close>

theorem check_onnx_model_never_raises:
  "(\<exists>b. result_of (check_onnx_model w p) = Inr b) \<and>
   (path_exists w p \<and> onnx_load w p = Inl e \<longrightarrow>
      result_of (check_onnx_model w p) = Inr False \<and>
      last (log_of (check_onnx_model w p)) = PrintValidationFailed e) \<and>
   (path_exists w p \<and> onnx_load w p = Inr m \<and> onnx_check_model w m = Inl e \<longrightarrow>
      result_of (check_onnx_model w p) = Inr False \<and>
      last (log_of (check_onnx_model w p)) = PrintValidationFailed e) \<and>
   (path_exists w p \<and> onnx_load w p = Inr m \<and> onnx_check_model w m = Inr () \<and>
    (ort_InferenceSession w p = Inl e \<or>
     ort_InferenceSession w p = Inr s \<and>
     (first (get_inputs s) = Inl e \<or>
      first (get_inputs s) = Inr i \<and>
      (first (get_outputs s) = Inl e \<or>
       first (get_outputs s) = Inr out \<and> is_compatible i = Inl e))) \<longrightarrow>
      result_of (check_onnx_model w p) = Inr False \<and>
      last (log_of (check_onnx_model w p)) = PrintRuntimeError e)"
proof (intro conjI impI)
  show "\<exists>b. result_of (check_onnx_model w p) = Inr b"
    by (rule check_onnx_model_returns)
next
  assume a: "path_exists w p \<and> onnx_load w p = Inl e"
  then have run: "check_onnx_model w p = (prologue w p @ [PrintValidationFailed e], Inr False)"
    using check_load_raises [of w p e] by blast
  show "result_of (check_onnx_model w p) = Inr False"
    by (simp add: run result_of_def)
  show "last (log_of (check_onnx_model w p)) = PrintValidationFailed e"
    by (simp add: run log_of_def)
next
  assume a: "path_exists w p \<and> onnx_load w p = Inr m \<and> onnx_check_model w m = Inl e"
  then have run: "check_onnx_model w p =
      (prologue w p @ [CallCheckModel, PrintValidationFailed e], Inr False)"
    using check_check_raises [of w p m e] by blast
  show "result_of (check_onnx_model w p) = Inr False"
    by (simp add: run result_of_def)
  show "last (log_of (check_onnx_model w p)) = PrintValidationFailed e"
    by (simp add: run log_of_def)
next
  assume a: "path_exists w p \<and> onnx_load w p = Inr m \<and> onnx_check_model w m = Inr () \<and>
    (ort_InferenceSession w p = Inl e \<or>
     ort_InferenceSession w p = Inr s \<and>
     (first (get_inputs s) = Inl e \<or>
      first (get_inputs s) = Inr i \<and>
      (first (get_outputs s) = Inl e \<or>
       first (get_outputs s) = Inr out \<and> is_compatible i = Inl e)))"
  then consider
      "ort_InferenceSession w p = Inl e"
    | "ort_InferenceSession w p = Inr s" "first (get_inputs s) = Inl e"
    | "ort_InferenceSession w p = Inr s" "first (get_inputs s) = Inr i"
      "first (get_outputs s) = Inl e"
    | "ort_InferenceSession w p = Inr s" "first (get_inputs s) = Inr i"
      "first (get_outputs s) = Inr out" "is_compatible i = Inl e"
    by blast
  then have "\<exists>l. check_onnx_model w p = (l @ [PrintRuntimeError e], Inr False)"
  proof cases
    case 1
    with a show ?thesis using check_session_raises [of w p m "()" e] by blast
  next
    case 2
    with a show ?thesis using check_no_input [of w p m "()" s e] by blast
  next
    case 3
    with a show ?thesis using check_no_output [of w p m "()" s i e] by blast
  next
    case 4
    with a have "check_onnx_model w p =
        ((checked_log w p m @
          [PrintSessionCreated, PrintSessionInput (na_name i) (na_shape i),
           PrintSessionOutput (na_name out) (na_shape out)]) @ [PrintRuntimeError e], Inr False)"
      using check_compat_raises [of w p m "()" s i out e] by simp
    then show ?thesis by blast
  qed
  then obtain l where run: "check_onnx_model w p = (l @ [PrintRuntimeError e], Inr False)"
    by blast
  show "result_of (check_onnx_model w p) = Inr False"
    by (simp add: run result_of_def)
  show "last (log_of (check_onnx_model w p)) = PrintRuntimeError e"
    by (simp add: run log_of_def)
qed

theorem check_onnx_model_never_raises_witness:
  "result_of (check_onnx_model
      (world_of (Inl (LibraryError ''corrupt'')) (Inr ()) (Inr (session_of static_input)))
      ''m.onnx'') = Inr False \<and>
   result_of (check_onnx_model
      (world_of (Inr yolo_model) (Inl (LibraryError ''invalid graph''))
        (Inr (session_of static_input)))
      ''m.onnx'') = Inr False \<and>
   result_of (check_onnx_model
      (world_of (Inr yolo_model) (Inr ()) (Inl (LibraryError ''unsupported opset'')))
      ''m.onnx'') = Inr False \<and>
   result_of (check_onnx_model
      (world_of (Inr yolo_model) (Inr ()) (Inr \<lparr>get_inputs = [], get_outputs = []\<rparr>))
      ''m.onnx'') = Inr False \<and>
   result_of (check_onnx_model
      (world_of (Inr yolo_model) (Inr ())
        (Inr \<lparr>get_inputs = [static_input], get_outputs = []\<rparr>))
      ''m.onnx'') = Inr False \<and>
   result_of (check_onnx_model (loadable_world dynamic_input) ''m.onnx'') = Inr False \<and>
   last (log_of (check_onnx_model (loadable_world dynamic_input) ''m.onnx'')) =
     PrintRuntimeError TypeError"
proof -
  let ?out = "\<lparr>na_name = ''output0'', na_shape = [DimInt 1, DimInt 84, DimInt 8400]\<rparr>"
  have 1: "result_of (check_onnx_model
      (world_of (Inl (LibraryError ''corrupt'')) (Inr ()) (Inr (session_of static_input)))
      ''m.onnx'') = Inr False"
    using check_onnx_model_never_raises
      [of "world_of (Inl (LibraryError ''corrupt'')) (Inr ()) (Inr (session_of static_input))"
        "''m.onnx''" "LibraryError ''corrupt''"]
    by (simp add: world_of_def)
  have 2: "result_of (check_onnx_model
      (world_of (Inr yolo_model) (Inl (LibraryError ''invalid graph''))
        (Inr (session_of static_input)))
      ''m.onnx'') = Inr False"
    using check_onnx_model_never_raises
      [of "world_of (Inr yolo_model) (Inl (LibraryError ''invalid graph''))
          (Inr (session_of static_input))"
        "''m.onnx''" "LibraryError ''invalid graph''" yolo_model]
    by (simp add: world_of_def)
  have 3: "result_of (check_onnx_model
      (world_of (Inr yolo_model) (Inr ()) (Inl (LibraryError ''unsupported opset'')))
      ''m.onnx'') = Inr False"
    using check_onnx_model_never_raises
      [of "world_of (Inr yolo_model) (Inr ()) (Inl (LibraryError ''unsupported opset''))"
        "''m.onnx''" "LibraryError ''unsupported opset''" yolo_model]
    by (simp add: world_of_def)
  have 4: "result_of (check_onnx_model
      (world_of (Inr yolo_model) (Inr ()) (Inr \<lparr>get_inputs = [], get_outputs = []\<rparr>))
      ''m.onnx'') = Inr False"
    using check_onnx_model_never_raises
      [of "world_of (Inr yolo_model) (Inr ()) (Inr \<lparr>get_inputs = [], get_outputs = []\<rparr>)"
        "''m.onnx''" IndexError yolo_model "\<lparr>get_inputs = [], get_outputs = []\<rparr>"]
    by (simp add: world_of_def)
  have 5: "result_of (check_onnx_model
      (world_of (Inr yolo_model) (Inr ())
        (Inr \<lparr>get_inputs = [static_input], get_outputs = []\<rparr>))
      ''m.onnx'') = Inr False"
    using check_onnx_model_never_raises
      [of "world_of (Inr yolo_model) (Inr ())
          (Inr \<lparr>get_inputs = [static_input], get_outputs = []\<rparr>)"
        "''m.onnx''" IndexError yolo_model
        "\<lparr>get_inputs = [static_input], get_outputs = []\<rparr>" static_input]
    by (simp add: world_of_def)
  have c: "is_compatible dynamic_input = Inl TypeError"
    by (simp add: is_compatible_def dynamic_input_def)
  have 6: "result_of (check_onnx_model (loadable_world dynamic_input) ''m.onnx'') = Inr False \<and>
      last (log_of (check_onnx_model (loadable_world dynamic_input) ''m.onnx'')) =
        PrintRuntimeError TypeError"
    using check_onnx_model_never_raises
      [of "loadable_world dynamic_input" "''m.onnx''" TypeError yolo_model
        "session_of dynamic_input" dynamic_input ?out]
    by (simp add: loadable_world_def world_of_def session_of_def c)
  from 1 2 3 4 5 6 show ?thesis by blast
qed

subsection \<open>main\<close>

lemma warning_block_check:
  "set (log_of (check_onnx_model w p)) \<inter> set warning_block = {}"
  by (cases rule: check_onnx_model_cases [of w p])
    (auto simp: check_runs log_of_def checked_log_def prologue_def introspect_def
      print_tensor_def warning_block_def)

lemma warning_block_main_loop:
  "set (concat (map (\<lambda>f. log_of (check_onnx_model w (path_join models_dir f))) fs))
     \<inter> set warning_block = {}"
  using warning_block_check by (induction fs) (auto simp: Int_Un_distrib2)

lemma empty_dir_no_file:
  "f \<in> set model_files \<Longrightarrow> \<not> path_exists empty_dir_world (path_join models_dir f)"
  by (auto simp: model_files_def empty_dir_world_def path_join_def models_dir_def)

lemma empty_dir_not_valid: "f \<in> set model_files \<Longrightarrow> \<not> is_valid empty_dir_world f"
  by (simp add: is_valid_def check_missing [OF empty_dir_no_file] result_of_def)

lemma empty_dir_none_valid: "filter (is_valid empty_dir_world) (take n model_files) = []"
  by (auto simp: filter_empty_conv empty_dir_not_valid dest: in_set_takeD)

text \<open>
  Claim C5. When the models directory exists, \<open>main\<close> calls \<open>check_onnx_model\<close> on
  the five file names \<open>yolov8s.onnx\<close>, \<open>yolov8s-pose.onnx\<close>, \<open>yolov8s-seg.onnx\<close>,
  \<open>olov8s-cls.onnx\<close> and \<open>yolov8s-obb.onnx\<close> of the list, joined to the directory, in
  this order and on nothing else, and the total it reports is 5 in every world, whichever
  files exist.
\<close>

theorem main_validates_five_models:
  assumes "path_exists w models_dir"
  shows "model_files =
      [''yolov8s.onnx'', ''yolov8s-pose.onnx'', ''yolov8s-seg.onnx'', ''olov8s-cls.onnx'',
       ''yolov8s-obb.onnx''] \<and>
    headers (log_of (main w)) = model_files \<and>
    (\<exists>valid_models after.
       result_of (main_loop w model_files (0, 0)) = Inr (valid_models, 5) \<and>
       log_of (main w) =
         PrintTitle #
         concat (map (\<lambda>f. log_of (check_onnx_model w (path_join models_dir f))) model_files) @
         PrintResultTitle # PrintSummary 5 valid_models # after)"
proof (intro conjI)
  show "model_files =
      [''yolov8s.onnx'', ''yolov8s-pose.onnx'', ''yolov8s-seg.onnx'', ''olov8s-cls.onnx'',
       ''yolov8s-obb.onnx'']"
    by (simp add: model_files_def)
  have five: "int (length model_files) = 5"
    by (simp add: model_files_def)
  have hw: "headers warning_block = []"
    by (simp add: warning_block_def)
  have lg: "log_of (main w) =
      PrintTitle #
      concat (map (\<lambda>f. log_of (check_onnx_model w (path_join models_dir f))) model_files) @
      PrintResultTitle #
      PrintSummary (int (length model_files)) (int (length (filter (is_valid w) model_files))) #
      (if length (filter (is_valid w) model_files) < length model_files then warning_block
       else [])"
    by (simp only: main_run [OF assms] log_of_def fst_conv)
  have hd: "headers
      (concat (map (\<lambda>f. log_of (check_onnx_model w (path_join models_dir f))) model_files)) =
      model_files"
    by (rule headers_main_loop) (rule no_slash_model_files)
  show "headers (log_of (main w)) = model_files"
    by (simp add: lg headers_append hd hw)
  show "\<exists>valid_models after.
       result_of (main_loop w model_files (0, 0)) = Inr (valid_models, 5) \<and>
       log_of (main w) =
         PrintTitle #
         concat (map (\<lambda>f. log_of (check_onnx_model w (path_join models_dir f))) model_files) @
         PrintResultTitle # PrintSummary 5 valid_models # after"
    by (simp add: lg main_loop_run result_of_def five)
qed

theorem main_validates_five_models_witness:
  "path_exists empty_dir_world models_dir \<and>
   headers (log_of (main empty_dir_world)) =
     [''yolov8s.onnx'', ''yolov8s-pose.onnx'', ''yolov8s-seg.onnx'', ''olov8s-cls.onnx'',
      ''yolov8s-obb.onnx''] \<and>
   result_of (main_loop empty_dir_world model_files (0, 0)) = Inr (0, 5)"
proof -
  have h: "path_exists empty_dir_world models_dir"
    by (simp add: empty_dir_world_def)
  have "filter (is_valid empty_dir_world) model_files = []"
    using empty_dir_none_valid [of "length model_files"] by simp
  then have v: "result_of (main_loop empty_dir_world model_files (0, 0)) =
      Inr (0, int (length model_files))"
    by (simp add: main_loop_run result_of_def)
  show ?thesis
    using h v main_validates_five_models [OF h] by auto
qed

text \<open>
  Claim C9. After any number \<open>n\<close> of iterations of the loop of \<open>main\<close>, that is after
  the first \<open>n\<close> files (by \<open>main_loop_append\<close> the loop over the whole list is the loop
  over a prefix followed by the loop over the rest), \<open>total_models\<close> is \<open>n\<close>,
  \<open>valid_models\<close> is the number of these files for which \<open>check_onnx_model\<close> returned
  \<open>True\<close>, and \<open>0 \<le> valid_models \<le> total_models\<close>. When the models directory exists,
  the log of \<open>main\<close> ends with the warning block if \<open>valid_models < total_models\<close> at
  the end of the loop, and has none of its lines otherwise.
\<close>

theorem main_loop_counters_invariant:
  "n \<le> length model_files \<Longrightarrow>
   (\<exists>valid_models total_models.
      result_of (main_loop w (take n model_files) (0, 0)) = Inr (valid_models, total_models) \<and>
      0 \<le> valid_models \<and> valid_models \<le> total_models \<and> total_models = int n \<and>
      valid_models = int (length (filter (is_valid w) (take n model_files)))) \<and>
   (path_exists w models_dir \<longrightarrow>
      (\<exists>valid_models total_models.
         result_of (main_loop w model_files (0, 0)) = Inr (valid_models, total_models) \<and>
         (if valid_models < total_models then \<exists>l. log_of (main w) = l @ warning_block
          else set (log_of (main w)) \<inter> set warning_block = {})))"
proof (intro conjI impI)
  assume n: "n \<le> length model_files"
  have "length (filter (is_valid w) (take n model_files)) \<le> length (take n model_files)"
    by (rule length_filter_le)
  then have "length (filter (is_valid w) (take n model_files)) \<le> n"
    using n by simp
  then show "\<exists>valid_models total_models.
      result_of (main_loop w (take n model_files) (0, 0)) = Inr (valid_models, total_models) \<and>
      0 \<le> valid_models \<and> valid_models \<le> total_models \<and> total_models = int n \<and>
      valid_models = int (length (filter (is_valid w) (take n model_files)))"
    using n by (simp add: main_loop_run result_of_def min_absorb2)
next
  assume d: "path_exists w models_dir"
  let ?checks = "concat (map (\<lambda>f. log_of (check_onnx_model w (path_join models_dir f))) model_files)"
  let ?v = "length (filter (is_valid w) model_files)"
  have lg: "log_of (main w) =
      PrintTitle # ?checks @
      PrintResultTitle # PrintSummary (int (length model_files)) (int ?v) #
      (if ?v < length model_files then warning_block else [])"
    by (simp only: main_run [OF d] log_of_def fst_conv)
  have res: "result_of (main_loop w model_files (0, 0)) = Inr (int ?v, int (length model_files))"
    by (simp add: main_loop_run result_of_def)
  have no: "set ?checks \<inter> set warning_block = {}"
    by (rule warning_block_main_loop)
  have "if ?v < length model_files then \<exists>l. log_of (main w) = l @ warning_block
      else set (log_of (main w)) \<inter> set warning_block = {}"
  proof (cases "?v < length model_files")
    case True
    then have "log_of (main w) =
        (PrintTitle # ?checks @
         [PrintResultTitle, PrintSummary (int (length model_files)) (int ?v)]) @ warning_block"
      by (simp add: lg)
    then have "\<exists>l. log_of (main w) = l @ warning_block" by (rule exI)
    with True show ?thesis by simp
  next
    case False
    then have "set (log_of (main w)) \<inter> set warning_block = {}"
      using no by (simp add: lg) (simp add: warning_block_def)
    with False show ?thesis by simp
  qed
  then show "\<exists>valid_models total_models.
      result_of (main_loop w model_files (0, 0)) = Inr (valid_models, total_models) \<and>
      (if valid_models < total_models then \<exists>l. log_of (main w) = l @ warning_block
       else set (log_of (main w)) \<inter> set warning_block = {})"
    by (simp add: res)
qed

theorem main_loop_counters_invariant_witness:
  "(3::nat) \<le> length model_files \<and> path_exists empty_dir_world models_dir \<and>
   result_of (main_loop empty_dir_world (take 3 model_files) (0, 0)) = Inr (0, 3) \<and>
   result_of (main_loop empty_dir_world model_files (0, 0)) = Inr (0, 5) \<and>
   (\<exists>l. log_of (main empty_dir_world) = l @ warning_block)"
proof -
  have n: "(3::nat) \<le> length model_files"
    by (simp add: model_files_def)
  have h: "path_exists empty_dir_world models_dir"
    by (simp add: empty_dir_world_def)
  have "filter (is_valid empty_dir_world) model_files = []"
    using empty_dir_none_valid [of "length model_files"] by simp
  then have v: "result_of (main_loop empty_dir_world model_files (0, 0)) = Inr (0, 5)"
    by (simp add: main_loop_run result_of_def) (simp add: model_files_def)
  show ?thesis
    using n h v main_loop_counters_invariant [OF n, of empty_dir_world]
    by (auto simp: empty_dir_none_valid)
qed

end
